theory Spec2Isabelle
  imports Complex_Main "HOL-Library.Sublist" "HOL-Library.Multiset"
begin

section \<open>Strings\<close>

text \<open>
  A JavaScript string is a sequence of UTF-16 code units. It is modelled as a
  \<^typ>\<open>string\<close>, a character being the code unit of the same number, U+0000 to
  U+00FF (Basic Latin and Latin-1 Supplement). On these the three string methods the
  client uses are written out in full. \<^verbatim>\<open>toLowerCase\<close> maps \<open>A\<close> to \<open>Z\<close> and
  U+00C0 to U+00DE, the multiplication sign U+00D7 apart, to the character 32 places
  further on, and leaves every other character as it is. \<^verbatim>\<open>trim\<close> removes the
  white space and the line terminators at both ends: tab, line feed, vertical tab, form
  feed, carriage return, space and the no-break space U+00A0. \<^verbatim>\<open>includes\<close>
  (here \<open>includes_str\<close>) is the substring test.
\<close>

definition lower_char :: "char \<Rightarrow> char" where
  "lower_char c =
     (case map_of
             (zip (''ABCDEFGHIJKLMNOPQRSTUVWXYZ'' @
                   [CHR 0xC0, CHR 0xC1, CHR 0xC2, CHR 0xC3, CHR 0xC4, CHR 0xC5, CHR 0xC6, CHR 0xC7,
                    CHR 0xC8, CHR 0xC9, CHR 0xCA, CHR 0xCB, CHR 0xCC, CHR 0xCD, CHR 0xCE, CHR 0xCF,
                    CHR 0xD0, CHR 0xD1, CHR 0xD2, CHR 0xD3, CHR 0xD4, CHR 0xD5, CHR 0xD6, CHR 0xD8,
                    CHR 0xD9, CHR 0xDA, CHR 0xDB, CHR 0xDC, CHR 0xDD, CHR 0xDE])
                  (''abcdefghijklmnopqrstuvwxyz'' @
                   [CHR 0xE0, CHR 0xE1, CHR 0xE2, CHR 0xE3, CHR 0xE4, CHR 0xE5, CHR 0xE6, CHR 0xE7,
                    CHR 0xE8, CHR 0xE9, CHR 0xEA, CHR 0xEB, CHR 0xEC, CHR 0xED, CHR 0xEE, CHR 0xEF,
                    CHR 0xF0, CHR 0xF1, CHR 0xF2, CHR 0xF3, CHR 0xF4, CHR 0xF5, CHR 0xF6, CHR 0xF8,
                    CHR 0xF9, CHR 0xFA, CHR 0xFB, CHR 0xFC, CHR 0xFD, CHR 0xFE]))
             c of
        Some d \<Rightarrow> d
      | None \<Rightarrow> c)"

definition toLowerCase :: "string \<Rightarrow> string" where
  "toLowerCase s = map lower_char s"

definition is_space :: "char \<Rightarrow> bool" where
  "is_space c =
     (c \<in> set [CHR 0x09, CHR 0x0A, CHR 0x0B, CHR 0x0C, CHR 0x0D, CHR 0x20, CHR 0xA0])"

definition trim :: "string \<Rightarrow> string" where
  "trim s = rev (dropWhile is_space (rev (dropWhile is_space s)))"

fun includes_str :: "string \<Rightarrow> string \<Rightarrow> bool" where
  "includes_str [] q = (q = [])"
| "includes_str (c # s) q = (prefix q (c # s) \<or> includes_str s q)"

section \<open>Food items and the derived lists\<close>

text \<open>
  \<^verbatim>\<open>type FoodItem = { id; name; category; quantity; image_url; created_at }\<close>.
  The inventory variant of the component declares the same type without \<open>image_url\<close>;
  none of the functions below reads that field.
\<close>

record FoodItem =
  id' :: int
  name :: string
  category :: string
  quantity :: int
  image_url :: string
  created_at :: string

text \<open>
  \<^verbatim>\<open>filteredItems\<close> of the inventory component:
  \<^verbatim>\<open>
  const query = searchTerm.trim().toLowerCase();
  return items.filter((item) => {
    const matchesCategory = activeCategory === 'All' || item.category === activeCategory;
    const matchesSearch = query.length === 0 ||
      item.name.toLowerCase().includes(query) ||
      item.category.toLowerCase().includes(query);
    return matchesCategory && matchesSearch;
  });
  \<close>
\<close>

definition matchesCategory :: "string \<Rightarrow> FoodItem \<Rightarrow> bool" where
  "matchesCategory activeCategory item =
     (activeCategory = ''All'' \<or> category item = activeCategory)"

definition matchesSearch :: "string \<Rightarrow> FoodItem \<Rightarrow> bool" where
  "matchesSearch query item =
     (length query = 0 \<or> includes_str (toLowerCase (name item)) query
        \<or> includes_str (toLowerCase (category item)) query)"

definition filteredItems :: "FoodItem list \<Rightarrow> string \<Rightarrow> string \<Rightarrow> FoodItem list" where
  "filteredItems items activeCategory searchTerm =
     (let query = toLowerCase (trim searchTerm)
      in filter (\<lambda>item. matchesCategory activeCategory item \<and> matchesSearch query item) items)"

text \<open>
  \<^verbatim>\<open>todayMenus\<close>: the three menus of the student page,
  \<^verbatim>\<open>items.filter((item) => item.category.toLowerCase() === 'lunch')\<close> and likewise
  for \<open>morning\<close> and \<open>dinner\<close>.
\<close>

record Menus =
  morning :: "FoodItem list"
  lunch :: "FoodItem list"
  dinner :: "FoodItem list"

definition todayMenus :: "FoodItem list \<Rightarrow> Menus" where
  "todayMenus items =
     \<lparr> morning = filter (\<lambda>item. toLowerCase (category item) = ''morning'') items,
       lunch = filter (\<lambda>item. toLowerCase (category item) = ''lunch'') items,
       dinner = filter (\<lambda>item. toLowerCase (category item) = ''dinner'') items \<rparr>"

text \<open>
  \<^verbatim>\<open>Array.prototype.sort\<close> with a comparison function. The sort is stable and puts
  \<open>a\<close> before \<open>b\<close> when the comparison is negative; for a consistent comparison
  function the result is the same for every sorting algorithm, and it is written here as
  an insertion sort. A comparison that yields \<open>NaN\<close> (here \<open>None\<close>) counts as \<open>0\<close>.
\<close>

definition SortCompare :: "('a \<Rightarrow> 'a \<Rightarrow> int option) \<Rightarrow> 'a \<Rightarrow> 'a \<Rightarrow> int" where
  "SortCompare comparefn x y = (case comparefn x y of None \<Rightarrow> 0 | Some v \<Rightarrow> v)"

fun insert_sorted :: "('a \<Rightarrow> 'a \<Rightarrow> int option) \<Rightarrow> 'a \<Rightarrow> 'a list \<Rightarrow> 'a list" where
  "insert_sorted comparefn x [] = [x]"
| "insert_sorted comparefn x (y # ys) =
     (if SortCompare comparefn x y \<le> 0 then x # y # ys
      else y # insert_sorted comparefn x ys)"

definition Array_sort :: "('a \<Rightarrow> 'a \<Rightarrow> int option) \<Rightarrow> 'a list \<Rightarrow> 'a list" where
  "Array_sort comparefn xs = foldr (insert_sorted comparefn) xs []"

text \<open>
  \<^verbatim>\<open>sortedHistory\<close>:
  \<^verbatim>\<open>[...items].sort((a, b) =>
      new Date(b.created_at).getTime() - new Date(a.created_at).getTime())\<close>.
  The parsing of a date string is the browser's; it is the parameter \<open>getTime\<close>, which
  gives the time in milliseconds, or \<open>None\<close> for \<open>NaN\<close> when the string is no date.
  A difference with a \<open>NaN\<close> operand is \<open>NaN\<close>.
\<close>

definition byCreatedDesc :: "(string \<Rightarrow> int option) \<Rightarrow> FoodItem \<Rightarrow> FoodItem \<Rightarrow> int option" where
  "byCreatedDesc getTime a b =
     (case (getTime (created_at b), getTime (created_at a)) of
        (Some tb, Some ta) \<Rightarrow> Some (tb - ta)
      | _ \<Rightarrow> None)"

definition sortedHistory :: "(string \<Rightarrow> int option) \<Rightarrow> FoodItem list \<Rightarrow> FoodItem list" where
  "sortedHistory getTime items = Array_sort (byCreatedDesc getTime) items"

section \<open>JSON values, exceptions, requests and responses\<close>

text \<open>
  A parsed JSON value. An object keeps its members in the order of the text; a later
  duplicate of a key wins, as in \<^verbatim>\<open>JSON.parse\<close>. Numbers are integers (the
  identifiers, quantities, ratings and status codes of this application).
\<close>

datatype json =
    JNull
  | JBool bool
  | JNum int
  | JStr string
  | JArr "json list"
  | JObj "(string \<times> json) list"

text \<open>
  \<^verbatim>\<open>data.key\<close> on a value that is not \<open>null\<close>: \<open>None\<close> is \<open>undefined\<close>. Only
  the keys the client reads (\<open>error\<close>, \<open>role\<close>, \<open>username\<close>, \<open>items\<close>) are meant;
  none of them is a property of a string, a number, a boolean or an array.
\<close>

fun member :: "json \<Rightarrow> string \<Rightarrow> json option" where
  "member (JObj kvs) k = map_of (rev kvs) k"
| "member _ k = None"

text \<open>\<^verbatim>\<open>data?.key\<close>: \<open>undefined\<close> when \<open>data\<close> is \<open>null\<close>.\<close>

definition opt_member :: "json \<Rightarrow> string \<Rightarrow> json option" where
  "opt_member data k = (case data of JNull \<Rightarrow> None | _ \<Rightarrow> member data k)"

text \<open>The left operand of \<^verbatim>\<open>??\<close>: \<open>undefined\<close> and \<open>null\<close> both give \<open>None\<close>.\<close>

definition nullish :: "json option \<Rightarrow> json option" where
  "nullish v = (case v of Some JNull \<Rightarrow> None | _ \<Rightarrow> v)"

text \<open>\<^verbatim>\<open>!data\<close> for a JSON value.\<close>

fun falsy :: "json \<Rightarrow> bool" where
  "falsy JNull = True"
| "falsy (JBool b) = (b = False)"
| "falsy (JNum n) = (n = 0)"
| "falsy (JStr s) = (s = [])"
| "falsy _ = False"

text \<open>
  What a \<^verbatim>\<open>catch\<close> clause can receive: a \<open>TypeError\<close>, another instance of
  \<open>Error\<close> (\<open>Error\<close> itself, \<open>SyntaxError\<close>, \<open>DOMException\<close>), or a value that is no
  \<open>Error\<close> at all.
\<close>

datatype exn = TypeError string | Error string | Thrown

fun instanceof_TypeError :: "exn \<Rightarrow> bool" where
  "instanceof_TypeError (TypeError m) = True"
| "instanceof_TypeError _ = False"

fun instanceof_Error :: "exn \<Rightarrow> bool" where
  "instanceof_Error Thrown = False"
| "instanceof_Error _ = True"

fun message_of :: "exn \<Rightarrow> string" where
  "message_of (TypeError m) = m"
| "message_of (Error m) = m"
| "message_of Thrown = []"

text \<open>
  A \<^verbatim>\<open>Response\<close>: \<open>body\<close> is what \<^verbatim>\<open>await response.text()\<close> gives, the text
  or the rejection of the read. A request is what \<^verbatim>\<open>fetch\<close> is called with:
  \<open>payload\<close> is the value handed to \<^verbatim>\<open>JSON.stringify\<close> for the body, and
  \<open>query\<close> holds the parameters of the query string in order. The cookie of the
  session, which \<^verbatim>\<open>credentials: 'include'\<close> lets the browser add, is no part of it.
\<close>

record Response =
  ok :: bool
  status :: nat
  body :: "exn + string"

datatype http_method = GET | POST

record Request =
  http_method :: http_method
  url :: string
  query :: "(string \<times> string) list"
  headers :: "(string \<times> string) list"
  credentials :: "string option"
  payload :: "json option"

text \<open>
  The parts of the JavaScript run time and of the build that the client calls and that
  are no code of the repository: the base address from the environment,
  \<^verbatim>\<open>JSON.parse\<close> (\<open>Inl\<close> is the exception it throws), the conversion of a value
  to the message of \<^verbatim>\<open>new Error(value)\<close>, \<^verbatim>\<open>Number(string)\<close> (\<open>None\<close> is
  \<open>NaN\<close>), the clock reading \<^verbatim>\<open>new Date().toLocaleTimeString()\<close>, and the
  unchecked type assertions on a server payload.
\<close>

record runtime =
  API_BASE_URL :: string
  JSON_parse :: "string \<Rightarrow> exn + json"
  ToString :: "json \<Rightarrow> string"
  Number :: "string \<Rightarrow> int option"
  toLocaleTimeString :: string
  as_items :: "json \<Rightarrow> FoodItem list"
  as_item :: "json \<Rightarrow> FoodItem"
  as_string :: "json \<Rightarrow> string"

text \<open>The message of \<^verbatim>\<open>new Error(v)\<close>; a string is its own message.\<close>

definition error_message :: "runtime \<Rightarrow> json \<Rightarrow> string" where
  "error_message rt v = (case v of JStr s \<Rightarrow> s | _ \<Rightarrow> ToString rt v)"

text \<open>\<^verbatim>\<open>JSON.stringify\<close> of a number writes \<open>NaN\<close> as \<open>null\<close>.\<close>

definition number_json :: "int option \<Rightarrow> json" where
  "number_json n = (case n of None \<Rightarrow> JNull | Some i \<Rightarrow> JNum i)"

text \<open>
  \<^verbatim>\<open>
  const readJsonSafely = async (response) => {
    const text = await response.text();
    if (!text) return null;
    try { return JSON.parse(text); } catch { return null; }
  };
  \<close>
\<close>

definition readJsonSafely :: "runtime \<Rightarrow> Response \<Rightarrow> exn + json" where
  "readJsonSafely rt response =
     (case body response of
        Inl e \<Rightarrow> Inl e
      | Inr text \<Rightarrow>
          if text = [] then Inr JNull
          else (case JSON_parse rt text of Inr v \<Rightarrow> Inr v | Inl e \<Rightarrow> Inr JNull))"

text \<open>\<^verbatim>\<open>await response.json()\<close>: the read or the parse may throw.\<close>

definition response_json :: "runtime \<Rightarrow> Response \<Rightarrow> exn + json" where
  "response_json rt response =
     (case body response of
        Inl e \<Rightarrow> Inl e
      | Inr text \<Rightarrow> JSON_parse rt text)"

text \<open>The two branches every \<^verbatim>\<open>catch\<close> of the client chooses between.\<close>

definition message_or :: "exn \<Rightarrow> string \<Rightarrow> string" where
  "message_or err fallback = (if instanceof_Error err then message_of err else fallback)"

section \<open>The inventory component\<close>

text \<open>
  The state of the inventory variant of \<^verbatim>\<open>App\<close> (one field for each
  \<^verbatim>\<open>useState\<close>) and its two handlers that talk to the server. A handler takes the
  network as a function from the request to the outcome of \<^verbatim>\<open>fetch\<close> (\<open>Inl\<close> is
  a rejected promise) and returns the new state with the requests it has issued.
\<close>

record InventoryState =
  items :: "FoodItem list"
  name :: string
  category :: string
  quantity :: string
  searchTerm :: string
  activeCategory :: string
  loading :: bool
  submitting :: bool
  error :: string
  lastUpdated :: string

definition API_URL :: "runtime \<Rightarrow> string" where
  "API_URL rt = API_BASE_URL rt @ ''/api/food-items/''"

definition unreachable_message :: string where
  "unreachable_message = ''Cannot reach backend API. Start Django server on http://localhost:8000.''"

text \<open>
  Reading a property of \<open>null\<close> throws a \<open>TypeError\<close>; its text is the engine's and is
  never shown, since the handlers replace the message of every \<open>TypeError\<close>.
\<close>

definition null_property_error :: exn where
  "null_property_error = TypeError ''Cannot read properties of null''"

text \<open>
  \<^verbatim>\<open>
  catch (err) {
    if (err instanceof TypeError) {
      setError('Cannot reach backend API. Start Django server on http://localhost:8000.');
    } else {
      setError(err instanceof Error ? err.message : 'Unexpected error.');
    }
  }
  \<close>
\<close>

definition inventory_catch :: "exn \<Rightarrow> InventoryState \<Rightarrow> InventoryState" where
  "inventory_catch err st =
     (if instanceof_TypeError err then st\<lparr>error := unreachable_message\<rparr>
      else st\<lparr>error := message_or err ''Unexpected error.''\<rparr>)"

text \<open>
  \<^verbatim>\<open>
  const loadItems = async () => {
    setLoading(true); setError('');
    try {
      const response = await fetch(API_URL);
      if (!response.ok) throw new Error('Unable to load food items.');
      const data = await response.json();
      setItems(data.items ?? []);
      setLastUpdated(new Date().toLocaleTimeString());
    } catch (err) { ... } finally { setLoading(false); }
  };
  \<close>
\<close>

definition loadItems_request :: "runtime \<Rightarrow> Request" where
  "loadItems_request rt =
     \<lparr> http_method = GET, url = API_URL rt, query = [], headers = [],
       credentials = None, payload = None \<rparr>"

definition loadItems_try :: "runtime \<Rightarrow> (Request \<Rightarrow> exn + Response) \<Rightarrow> exn + FoodItem list" where
  "loadItems_try rt fetch =
     (case fetch (loadItems_request rt) of
        Inl e \<Rightarrow> Inl e
      | Inr response \<Rightarrow>
          if \<not> ok response then Inl (Error ''Unable to load food items.'')
          else (case response_json rt response of
                  Inl e \<Rightarrow> Inl e
                | Inr JNull \<Rightarrow> Inl null_property_error
                | Inr data \<Rightarrow>
                    (case nullish (member data ''items'') of
                       None \<Rightarrow> Inr []
                     | Some v \<Rightarrow> Inr (as_items rt v))))"

definition loadItems ::
  "runtime \<Rightarrow> (Request \<Rightarrow> exn + Response) \<Rightarrow> InventoryState \<Rightarrow> InventoryState \<times> Request list" where
  "loadItems rt fetch st =
     (let st1 = st\<lparr>loading := True, error := []\<rparr>;
          st2 = (case loadItems_try rt fetch of
                   Inr loaded \<Rightarrow> st1\<lparr>items := loaded, lastUpdated := toLocaleTimeString rt\<rparr>
                 | Inl err \<Rightarrow> inventory_catch err st1)
      in (st2\<lparr>loading := False\<rparr>, [loadItems_request rt]))"

text \<open>
  \<^verbatim>\<open>
  const handleSubmit = async (event) => {
    event.preventDefault(); setSubmitting(true); setError('');
    try {
      const response = await fetch(API_URL, { method: 'POST',
        headers: { 'Content-Type': 'application/json' },
        body: JSON.stringify({ name, category, quantity: Number(quantity) }) });
      const data = await response.json();
      if (!response.ok) throw new Error(data.error ?? 'Unable to create item.');
      setItems((previous) => [data as FoodItem, ...previous]);
      setLastUpdated(new Date().toLocaleTimeString());
      setName(''); setCategory(''); setQuantity('1');
    } catch (err) { ... } finally { setSubmitting(false); }
  };
  \<close>
\<close>

definition handleSubmit_request :: "runtime \<Rightarrow> InventoryState \<Rightarrow> Request" where
  "handleSubmit_request rt st =
     \<lparr> http_method = POST, url = API_URL rt, query = [],
       headers = [(''Content-Type'', ''application/json'')],
       credentials = None,
       payload = Some (JObj [(''name'', JStr (name st)), (''category'', JStr (category st)),
                             (''quantity'', number_json (Number rt (quantity st)))]) \<rparr>"

definition handleSubmit_try ::
  "runtime \<Rightarrow> (Request \<Rightarrow> exn + Response) \<Rightarrow> InventoryState \<Rightarrow> exn + FoodItem" where
  "handleSubmit_try rt fetch st =
     (case fetch (handleSubmit_request rt st) of
        Inl e \<Rightarrow> Inl e
      | Inr response \<Rightarrow>
          (case response_json rt response of
             Inl e \<Rightarrow> Inl e
           | Inr data \<Rightarrow>
               if \<not> ok response then
                 (case data of
                    JNull \<Rightarrow> Inl null_property_error
                  | _ \<Rightarrow> Inl (Error (case nullish (member data ''error'') of
                                       Some v \<Rightarrow> error_message rt v
                                     | None \<Rightarrow> ''Unable to create item.'')))
               else Inr (as_item rt data)))"

definition handleSubmit ::
  "runtime \<Rightarrow> (Request \<Rightarrow> exn + Response) \<Rightarrow> InventoryState \<Rightarrow> InventoryState \<times> Request list" where
  "handleSubmit rt fetch st =
     (let st1 = st\<lparr>submitting := True, error := []\<rparr>;
          st2 = (case handleSubmit_try rt fetch st of
                   Inr created \<Rightarrow>
                     st1\<lparr>items := created # items st1, lastUpdated := toLocaleTimeString rt,
                         name := [], category := [], quantity := ''1''\<rparr>
                 | Inl err \<Rightarrow> inventory_catch err st1)
      in (st2\<lparr>submitting := False\<rparr>, [handleSubmit_request rt st]))"

section \<open>The portal component\<close>

text \<open>
  The state of the student and admin portal (\<^verbatim>\<open>App.tsx\<close>), one field for each
  \<^verbatim>\<open>useState\<close>. The annotation \<^verbatim>\<open>UserRole | null\<close> of \<open>role\<close> is erased
  when the program runs: the field holds \<open>null\<close> (\<open>None\<close>) or the string that
  \<^verbatim>\<open>setRole\<close> was given.
\<close>

record FeedbackItem =
  id' :: int
  student_name :: string
  food_item_id :: "int option"
  food_item_name :: string
  rating :: int
  message :: string
  created_at :: string

record AnalyticsItem =
  food_name :: string
  avg_rating :: rat
  count' :: nat

record AnalyticsData =
  top_rated :: "AnalyticsItem list"
  rating_distribution :: "(string \<times> int) list"

typedecl File

record AppState =
  items :: "FoodItem list"
  feedbacks :: "FeedbackItem list"
  analytics :: AnalyticsData
  name :: string
  category :: string
  quantity :: string
  imageFile :: "File option"
  feedbackMessage :: string
  feedbackRating :: string
  feedbackFoodId :: string
  filterSearch :: string
  filterCategory :: string
  filterFrom :: string
  filterTo :: string
  loading :: bool
  submitting :: bool
  feedbackSubmitting :: bool
  error :: string
  feedbackStatus :: string
  lastUpdated :: string
  role :: "string option"
  username :: string
  password :: string
  currentUser :: string
  loginError :: string
  loginLoading :: bool

text \<open>
  \<^verbatim>\<open>API_BASE_URL.replace(/\/+$/, '').replace(/\/api$/, '')\<close>: the trailing slashes
  are removed, then one trailing \<open>/api\<close>.
\<close>

definition NORMALIZED_BASE_URL :: "runtime \<Rightarrow> string" where
  "NORMALIZED_BASE_URL rt =
     (let b = rev (dropWhile (\<lambda>c. c = CHR ''/'') (rev (API_BASE_URL rt)))
      in if suffix ''/api'' b then take (length b - 4) b else b)"

definition FOOD_URL :: "runtime \<Rightarrow> string" where
  "FOOD_URL rt = NORMALIZED_BASE_URL rt @ ''/api/food-items/''"

definition LOGIN_URL :: "runtime \<Rightarrow> string" where
  "LOGIN_URL rt = NORMALIZED_BASE_URL rt @ ''/api/auth/login/''"

definition FEEDBACK_URL :: "runtime \<Rightarrow> string" where
  "FEEDBACK_URL rt = NORMALIZED_BASE_URL rt @ ''/api/feedback/''"

definition ANALYTICS_URL :: "runtime \<Rightarrow> string" where
  "ANALYTICS_URL rt = NORMALIZED_BASE_URL rt @ ''/api/analytics/feedback/''"

text \<open>
  \<^verbatim>\<open>queryString(filters)\<close>: the parameters whose trimmed value is not empty, each
  with its trimmed value, in the order \<open>search\<close>, \<open>category\<close>, \<open>date_from\<close>, \<open>date_to\<close>.
\<close>

definition queryString :: "(string \<times> string) list \<Rightarrow> (string \<times> string) list" where
  "queryString params =
     map (\<lambda>(key, v). (key, trim v)) (filter (\<lambda>(key, v). trim v \<noteq> []) params)"

definition filters :: "AppState \<Rightarrow> (string \<times> string) list" where
  "filters st =
     [(''search'', filterSearch st), (''category'', filterCategory st),
      (''date_from'', filterFrom st), (''date_to'', filterTo st)]"

text \<open>The decimal digits of a status code, for \<^verbatim>\<open>`Login failed (HTTP ${response.status}).`\<close>.\<close>

fun show_nat :: "nat \<Rightarrow> string" where
  "show_nat n =
     (if n < 10 then [''0123456789'' ! n]
      else show_nat (n div 10) @ [''0123456789'' ! (n mod 10)])"

declare show_nat.simps [simp del]

text \<open>
  \<^verbatim>\<open>
  const handleLogin = async (event) => {
    event.preventDefault(); setLoginError(''); setLoginLoading(true);
    try {
      const response = await fetch(LOGIN_URL, { method: 'POST',
        headers: { 'Content-Type': 'application/json' }, credentials: 'include',
        body: JSON.stringify({ username: username.trim(), password }) });
      const data = await readJsonSafely(response);
      if (!response.ok) {
        const fallback = response.status === 404
          ? 'Login endpoint not found. Restart backend and verify latest code is running.'
          : `Login failed (HTTP ${response.status}).`;
        throw new Error(data?.error ?? fallback);
      }
      if (!data || (data.role !== 'student' && data.role !== 'admin')) {
        throw new Error('Invalid login response from backend.');
      }
      setRole(data.role as UserRole);
      setCurrentUser(data.username ?? username.trim());
      setPassword('');
    } catch (err) {
      setLoginError(err instanceof Error ? err.message : 'Unexpected login error.');
    } finally { setLoginLoading(false); }
  };
  \<close>
  A \<open>role\<close> member that is no string differs from both literals, so the test on
  \<open>data.role\<close> is written as a case distinction on the member.
\<close>

definition handleLogin_request :: "runtime \<Rightarrow> AppState \<Rightarrow> Request" where
  "handleLogin_request rt st =
     \<lparr> http_method = POST, url = LOGIN_URL rt, query = [],
       headers = [(''Content-Type'', ''application/json'')],
       credentials = Some ''include'',
       payload = Some (JObj [(''username'', JStr (trim (username st))),
                             (''password'', JStr (password st))]) \<rparr>"

definition login_fallback :: "Response \<Rightarrow> string" where
  "login_fallback response =
     (if status response = 404
      then ''Login endpoint not found. Restart backend and verify latest code is running.''
      else ''Login failed (HTTP '' @ show_nat (status response) @ '').'')"

definition invalid_login :: exn where
  "invalid_login = Error ''Invalid login response from backend.''"

definition handleLogin_try ::
  "runtime \<Rightarrow> (Request \<Rightarrow> exn + Response) \<Rightarrow> AppState \<Rightarrow> exn + string \<times> string" where
  "handleLogin_try rt fetch st =
     (case fetch (handleLogin_request rt st) of
        Inl e \<Rightarrow> Inl e
      | Inr response \<Rightarrow>
          (case readJsonSafely rt response of
             Inl e \<Rightarrow> Inl e
           | Inr data \<Rightarrow>
               if \<not> ok response then
                 Inl (Error (case nullish (opt_member data ''error'') of
                               Some v \<Rightarrow> error_message rt v
                             | None \<Rightarrow> login_fallback response))
               else
                 (case member data ''role'' of
                    Some (JStr r) \<Rightarrow>
                      if falsy data \<or> (r \<noteq> ''student'' \<and> r \<noteq> ''admin'') then Inl invalid_login
                      else Inr (r, case nullish (member data ''username'') of
                                     Some (JStr u) \<Rightarrow> u
                                   | Some v \<Rightarrow> as_string rt v
                                   | None \<Rightarrow> trim (username st))
                  | _ \<Rightarrow> Inl invalid_login)))"

definition handleLogin ::
  "runtime \<Rightarrow> (Request \<Rightarrow> exn + Response) \<Rightarrow> AppState \<Rightarrow> AppState \<times> Request list" where
  "handleLogin rt fetch st =
     (let st1 = st\<lparr>loginError := [], loginLoading := True\<rparr>;
          st2 = (case handleLogin_try rt fetch st of
                   Inr (r, u) \<Rightarrow> st1\<lparr>role := Some r, currentUser := u, password := []\<rparr>
                 | Inl err \<Rightarrow> st1\<lparr>loginError := message_or err ''Unexpected login error.''\<rparr>)
      in (st2\<lparr>loginLoading := False\<rparr>, [handleLogin_request rt st]))"

text \<open>
  \<^verbatim>\<open>
  const handleLogout = () => {
    setRole(null); setCurrentUser(''); setLoginError(''); setFeedbackStatus('');
  };
  \<close>
  It calls \<^verbatim>\<open>fetch\<close> nowhere: the list of requests is empty.
\<close>

definition handleLogout :: "AppState \<Rightarrow> AppState \<times> Request list" where
  "handleLogout st =
     (st\<lparr>role := None, currentUser := [], loginError := [], feedbackStatus := []\<rparr>, [])"

text \<open>
  The effect that runs when \<open>role\<close> (or a filter) has changed:
  \<^verbatim>\<open>
  useEffect(() => {
    if (role === 'admin') { loadFeedbacks(); loadAnalytics(); }
  }, [role, filterSearch, filterCategory, filterFrom, filterTo]);
  \<close>
  Only the requests it issues are modelled, \<^verbatim>\<open>fetch(`${FEEDBACK_URL}${queryString(filters)}`,
  { credentials: 'include' })\<close> and the same for \<open>ANALYTICS_URL\<close>.
\<close>

definition filtered_get :: "string \<Rightarrow> AppState \<Rightarrow> Request" where
  "filtered_get address st =
     \<lparr> http_method = GET, url = address, query = queryString (filters st), headers = [],
       credentials = Some ''include'', payload = None \<rparr>"

definition role_effect_requests :: "runtime \<Rightarrow> AppState \<Rightarrow> Request list" where
  "role_effect_requests rt st =
     (if role st = Some ''admin''
      then [filtered_get (FEEDBACK_URL rt) st, filtered_get (ANALYTICS_URL rt) st]
      else [])"

text \<open>
  \<^verbatim>\<open>
  const handleFeedbackSubmit = async (event) => {
    event.preventDefault(); setFeedbackStatus(''); setFeedbackSubmitting(true);
    try {
      const response = await fetch(FEEDBACK_URL, { method: 'POST',
        headers: { 'Content-Type': 'application/json' }, credentials: 'include',
        body: JSON.stringify({
          message: feedbackMessage,
          rating: Number(feedbackRating),
          food_item_id: feedbackFoodId ? Number(feedbackFoodId) : null }) });
      const data = await readJsonSafely(response);
      if (!response.ok) throw new Error(data?.error ?? 'Unable to submit feedback.');
      setFeedbackStatus('Feedback submitted successfully.');
      setFeedbackMessage(''); setFeedbackFoodId(''); setFeedbackRating('5');
    } catch (err) {
      setFeedbackStatus(err instanceof Error ? err.message : 'Unable to submit feedback.');
    } finally { setFeedbackSubmitting(false); }
  };
  \<close>
\<close>

definition feedback_payload :: "runtime \<Rightarrow> AppState \<Rightarrow> json" where
  "feedback_payload rt st =
     JObj [(''message'', JStr (feedbackMessage st)),
           (''rating'', number_json (Number rt (feedbackRating st))),
           (''food_item_id'',
              if feedbackFoodId st = [] then JNull
              else number_json (Number rt (feedbackFoodId st)))]"

definition handleFeedbackSubmit_request :: "runtime \<Rightarrow> AppState \<Rightarrow> Request" where
  "handleFeedbackSubmit_request rt st =
     \<lparr> http_method = POST, url = FEEDBACK_URL rt, query = [],
       headers = [(''Content-Type'', ''application/json'')],
       credentials = Some ''include'',
       payload = Some (feedback_payload rt st) \<rparr>"

definition handleFeedbackSubmit_try ::
  "runtime \<Rightarrow> (Request \<Rightarrow> exn + Response) \<Rightarrow> AppState \<Rightarrow> exn + unit" where
  "handleFeedbackSubmit_try rt fetch st =
     (case fetch (handleFeedbackSubmit_request rt st) of
        Inl e \<Rightarrow> Inl e
      | Inr response \<Rightarrow>
          (case readJsonSafely rt response of
             Inl e \<Rightarrow> Inl e
           | Inr data \<Rightarrow>
               if \<not> ok response then
                 Inl (Error (case nullish (opt_member data ''error'') of
                               Some v \<Rightarrow> error_message rt v
                             | None \<Rightarrow> ''Unable to submit feedback.''))
               else Inr ()))"

definition handleFeedbackSubmit ::
  "runtime \<Rightarrow> (Request \<Rightarrow> exn + Response) \<Rightarrow> AppState \<Rightarrow> AppState \<times> Request list" where
  "handleFeedbackSubmit rt fetch st =
     (let st1 = st\<lparr>feedbackStatus := [], feedbackSubmitting := True\<rparr>;
          st2 = (case handleFeedbackSubmit_try rt fetch st of
                   Inr u \<Rightarrow>
                     st1\<lparr>feedbackStatus := ''Feedback submitted successfully.'',
                         feedbackMessage := [], feedbackFoodId := [], feedbackRating := ''5''\<rparr>
                 | Inl err \<Rightarrow> st1\<lparr>feedbackStatus := message_or err ''Unable to submit feedback.''\<rparr>)
      in (st2\<lparr>feedbackSubmitting := False\<rparr>, [handleFeedbackSubmit_request rt st]))"

text \<open>
  The handlers of the portal that load and create food items. Their \<^verbatim>\<open>catch\<close>
  has one branch for every error:
  \<^verbatim>\<open>
  const loadItems = async () => {
    setLoading(true); setError('');
    try {
      const response = await fetch(`${FOOD_URL}${queryString(filters)}`,
                                   { credentials: 'include' });
      const data = await readJsonSafely(response);
      if (!response.ok) throw new Error(data?.error ?? 'Unable to load food items.');
      if (!data) throw new Error('Backend returned an invalid response.');
      setItems(data.items ?? []);
      setLastUpdated(new Date().toLocaleTimeString());
    } catch (err) {
      setError(err instanceof Error ? err.message : 'Unexpected error.');
    } finally { setLoading(false); }
  };
  \<close>
\<close>

definition portal_loadItems_try ::
  "runtime \<Rightarrow> (Request \<Rightarrow> exn + Response) \<Rightarrow> AppState \<Rightarrow> exn + FoodItem list" where
  "portal_loadItems_try rt fetch st =
     (case fetch (filtered_get (FOOD_URL rt) st) of
        Inl e \<Rightarrow> Inl e
      | Inr response \<Rightarrow>
          (case readJsonSafely rt response of
             Inl e \<Rightarrow> Inl e
           | Inr data \<Rightarrow>
               if \<not> ok response then
                 Inl (Error (case nullish (opt_member data ''error'') of
                               Some v \<Rightarrow> error_message rt v
                             | None \<Rightarrow> ''Unable to load food items.''))
               else if falsy data then Inl (Error ''Backend returned an invalid response.'')
               else (case nullish (member data ''items'') of
                       None \<Rightarrow> Inr []
                     | Some v \<Rightarrow> Inr (as_items rt v))))"

definition portal_loadItems ::
  "runtime \<Rightarrow> (Request \<Rightarrow> exn + Response) \<Rightarrow> AppState \<Rightarrow> AppState \<times> Request list" where
  "portal_loadItems rt fetch st =
     (let st1 = st\<lparr>loading := True, error := []\<rparr>;
          st2 = (case portal_loadItems_try rt fetch st of
                   Inr loaded \<Rightarrow> st1\<lparr>items := loaded, lastUpdated := toLocaleTimeString rt\<rparr>
                 | Inl err \<Rightarrow> st1\<lparr>error := message_or err ''Unexpected error.''\<rparr>)
      in (st2\<lparr>loading := False\<rparr>, [filtered_get (FOOD_URL rt) st]))"

text \<open>
  \<^verbatim>\<open>
  const handleSubmit = async (event) => {
    event.preventDefault(); setSubmitting(true); setError('');
    try {
      const payload = new FormData();
      payload.append('name', name);
      payload.append('category', category);
      payload.append('quantity', quantity);
      if (imageFile) payload.append('image', imageFile);
      const response = await fetch(FOOD_URL,
        { method: 'POST', credentials: 'include', body: payload });
      const data = await readJsonSafely(response);
      if (!response.ok) throw new Error(data?.error ?? 'Unable to create item.');
      if (!data) throw new Error('Backend returned an invalid response.');
      setItems((previous) => [data as FoodItem, ...previous]);
      setLastUpdated(new Date().toLocaleTimeString());
      setName(''); setCategory('morning'); setQuantity('1'); setImageFile(null);
    } catch (err) {
      setError(err instanceof Error ? err.message : 'Unexpected error.');
    } finally { setSubmitting(false); }
  };
  \<close>
  The request carries a form, not a JSON value: it is a request with the further field
  \<open>form\<close>, the entries of the \<^verbatim>\<open>FormData\<close> in order.
\<close>

datatype form_value = FormText string | FormFile File

record FormRequest = Request +
  form :: "(string \<times> form_value) list"

definition portal_handleSubmit_request :: "runtime \<Rightarrow> AppState \<Rightarrow> FormRequest" where
  "portal_handleSubmit_request rt st =
     \<lparr> http_method = POST, url = FOOD_URL rt, query = [], headers = [],
       credentials = Some ''include'', payload = None,
       form = [(''name'', FormText (name st)), (''category'', FormText (category st)),
               (''quantity'', FormText (quantity st))]
              @ (case imageFile st of None \<Rightarrow> [] | Some f \<Rightarrow> [(''image'', FormFile f)]) \<rparr>"

definition portal_handleSubmit_try ::
  "runtime \<Rightarrow> (FormRequest \<Rightarrow> exn + Response) \<Rightarrow> AppState \<Rightarrow> exn + FoodItem" where
  "portal_handleSubmit_try rt fetch st =
     (case fetch (portal_handleSubmit_request rt st) of
        Inl e \<Rightarrow> Inl e
      | Inr response \<Rightarrow>
          (case readJsonSafely rt response of
             Inl e \<Rightarrow> Inl e
           | Inr data \<Rightarrow>
               if \<not> ok response then
                 Inl (Error (case nullish (opt_member data ''error'') of
                               Some v \<Rightarrow> error_message rt v
                             | None \<Rightarrow> ''Unable to create item.''))
               else if falsy data then Inl (Error ''Backend returned an invalid response.'')
               else Inr (as_item rt data)))"

definition portal_handleSubmit ::
  "runtime \<Rightarrow> (FormRequest \<Rightarrow> exn + Response) \<Rightarrow> AppState \<Rightarrow> AppState \<times> FormRequest list" where
  "portal_handleSubmit rt fetch st =
     (let st1 = st\<lparr>submitting := True, error := []\<rparr>;
          st2 = (case portal_handleSubmit_try rt fetch st of
                   Inr created \<Rightarrow>
                     st1\<lparr>items := created # items st1, lastUpdated := toLocaleTimeString rt,
                         name := [], category := ''morning'', quantity := ''1'',
                         imageFile := None\<rparr>
                 | Inl err \<Rightarrow> st1\<lparr>error := message_or err ''Unexpected error.''\<rparr>)
      in (st2\<lparr>submitting := False\<rparr>, [portal_handleSubmit_request rt st]))"

text \<open>The keys of an object, in order.\<close>

fun keys_of :: "json \<Rightarrow> string list" where
  "keys_of (JObj kvs) = map fst kvs"
| "keys_of _ = []"

text \<open>
  The rating distribution of the admin dashboard:
  \<^verbatim>\<open>
  ['5', '4', '3', '2', '1'].map((key) => {
    const value = analytics.rating_distribution[key] ?? 0;
    const total = Object.values(analytics.rating_distribution).reduce((sum, n) => sum + n, 0);
    const width = total > 0 ? (value / total) * 100 : 0;
    ... <span>{key} Star</span> ... style={{ width: `${width}%` }} ... <strong>{value}</strong>
  })
  \<close>
  A row is the key, the value shown and the width of the bar.
\<close>

definition distribution_rows :: "AnalyticsData \<Rightarrow> (string \<times> int \<times> rat) list" where
  "distribution_rows a =
     map (\<lambda>key.
            let v = (case map_of (rev (rating_distribution a)) key of None \<Rightarrow> 0 | Some n \<Rightarrow> n);
                total = sum_list (map snd (rating_distribution a));
                width = (if total > 0 then (of_int v / of_int total) * 100 else 0)
            in (key, v, width))
         [''5'', ''4'', ''3'', ''2'', ''1'']"

section \<open>The server operations, from the specification\<close>

text \<open>
  The server is not among the sources. Its two operations that the properties below are
  about are written from the specification (sections 3, 4.3, 4.5 and 7).
\<close>

text \<open>
  Modelled from the spec: the session of section 3, an identity (the user name) and one
  of the two roles; the server code that keeps it is missing.
\<close>

datatype UserRole = Student | Admin

record Session =
  identity :: string
  session_role :: UserRole

text \<open>
  Modelled from the spec: the error taxonomy of section 7, as far as a create operation
  can return it.
\<close>

datatype api_error = ValidationError string | AuthError | Forbidden | NotFound

text \<open>
  Modelled from the spec: the record store of section 2, the food items and the feedback
  entries. An entry has the fields of \<^verbatim>\<open>FeedbackItem\<close>, the form in which the
  server sends it.
\<close>

record Store =
  food_items :: "FoodItem list"
  feedback_entries :: "FeedbackItem list"

text \<open>
  Modelled from the spec: a fresh identity, distinct from all existing ones (one more
  than the largest).
\<close>

definition fresh_id :: "int list \<Rightarrow> int" where
  "fresh_id used = foldr max used 0 + 1"

text \<open>
  Modelled from the spec: \<open>createFeedback(message, rating, foodItemId?)\<close> of section 4.5,
  whose code (the server) is missing. It is restricted to the student role; it validates
  message length \<open>\<ge> 3\<close> and rating \<open>\<in> [1,5]\<close>, an error naming the offending field; a
  given \<open>foodItemId\<close> must reference an existing food item or the call fails with
  \<open>NotFound\<close>; the student name is the identity of the session; identity and creation
  time are assigned by the server (\<open>now\<close> is its clock). The specification does not
  order the role check and the validation: the role is checked first here. An error
  leaves the store as it is.
\<close>

definition createFeedback ::
  "Store \<Rightarrow> Session option \<Rightarrow> string \<Rightarrow> string \<Rightarrow> int \<Rightarrow> int option
     \<Rightarrow> api_error + FeedbackItem \<times> Store" where
  "createFeedback store session now msg r foodItemId =
     (case session of
        None \<Rightarrow> Inl AuthError
      | Some s \<Rightarrow>
          if session_role s = Admin then Inl Forbidden
          else if length msg < 3 then Inl (ValidationError ''message'')
          else if r < 1 \<or> 5 < r then Inl (ValidationError ''rating'')
          else
            (let entry = \<lparr> id' = fresh_id (map FeedbackItem.id' (feedback_entries store)),
                           student_name = identity s, food_item_id = foodItemId,
                           food_item_name = [], rating = r, message = msg, created_at = now \<rparr>
             in case foodItemId of
                  None \<Rightarrow> Inr (entry, store\<lparr>feedback_entries := feedback_entries store @ [entry]\<rparr>)
                | Some fid \<Rightarrow>
                    (case find (\<lambda>item. FoodItem.id' item = fid) (food_items store) of
                       None \<Rightarrow> Inl NotFound
                     | Some item \<Rightarrow>
                         let named = entry\<lparr>food_item_name := FoodItem.name item\<rparr>
                         in Inr (named, store\<lparr>feedback_entries := feedback_entries store @ [named]\<rparr>))))"

text \<open>
  Modelled from the spec: the decoding of the body of \<open>POST /api/feedback/\<close> of
  section 6, \<open>{message, rating, food_item_id?}\<close>; the server code is missing. The
  message is a string, the rating a number, the food item a number, \<open>null\<close> or absent;
  an error names the offending field. No other member of the body is read.
\<close>

definition decode_feedback :: "json \<Rightarrow> api_error + string \<times> int \<times> int option" where
  "decode_feedback b =
     (case member b ''message'' of
        Some (JStr msg) \<Rightarrow>
          (case member b ''rating'' of
             Some (JNum r) \<Rightarrow>
               (case nullish (member b ''food_item_id'') of
                  None \<Rightarrow> Inr (msg, r, None)
                | Some (JNum fid) \<Rightarrow> Inr (msg, r, Some fid)
                | Some _ \<Rightarrow> Inl (ValidationError ''food_item_id''))
           | _ \<Rightarrow> Inl (ValidationError ''rating''))
      | _ \<Rightarrow> Inl (ValidationError ''message''))"

text \<open>
  Modelled from the spec: the endpoint \<open>POST /api/feedback/\<close> of section 6, whose code
  (the server) is missing. It receives the session of the request and the body that the
  client has sent, which may be any JSON value, and creates the feedback of section 4.5
  from the decoded body. The student identity is taken from the session, not from
  client-supplied input; the role is checked before the body is decoded, as in
  \<open>createFeedback\<close>.
\<close>

definition post_feedback ::
  "Store \<Rightarrow> Session option \<Rightarrow> string \<Rightarrow> json \<Rightarrow> api_error + FeedbackItem \<times> Store" where
  "post_feedback store session now b =
     (case session of
        None \<Rightarrow> Inl AuthError
      | Some s \<Rightarrow>
          if session_role s = Admin then Inl Forbidden
          else (case decode_feedback b of
                  Inl e \<Rightarrow> Inl e
                | Inr (msg, r, foodItemId) \<Rightarrow>
                    createFeedback store session now msg r foodItemId))"

text \<open>
  Modelled from the spec: the ascending order of food names, the last tie-break of the
  ranking of section 4.3, taken as the order of strings by character code.
\<close>

fun string_less :: "string \<Rightarrow> string \<Rightarrow> bool" where
  "string_less [] [] = False"
| "string_less [] (d # t) = True"
| "string_less (c # s) [] = False"
| "string_less (c # s) (d # t) =
     ((of_char c :: nat) < of_char d \<or> (c = d \<and> string_less s t))"

text \<open>
  Modelled from the spec: the entries that section 4.3 groups, those with a food
  reference; entries with no food reference are excluded from \<open>top_rated\<close>.
\<close>

definition referenced :: "FeedbackItem list \<Rightarrow> FeedbackItem list" where
  "referenced fs = filter (\<lambda>f. food_item_id f \<noteq> None) fs"

text \<open>
  Modelled from the spec: one group of section 4.3, the entries that reference the food
  item named \<open>n\<close>, with the arithmetic mean of their ratings, as an exact fraction, and
  their number.
\<close>

definition group_of :: "FeedbackItem list \<Rightarrow> string \<Rightarrow> AnalyticsItem" where
  "group_of fs n =
     (let rs = map rating (filter (\<lambda>f. food_item_name f = n) (referenced fs))
      in \<lparr> food_name = n, avg_rating = of_int (sum_list rs) / of_nat (length rs),
           count' = length rs \<rparr>)"

text \<open>
  Modelled from the spec: the ranking of section 4.3, descending by mean rating, then
  descending by count, then ascending by food name; negative when \<open>a\<close> comes first.
\<close>

definition rank_compare :: "AnalyticsItem \<Rightarrow> AnalyticsItem \<Rightarrow> int option" where
  "rank_compare a b =
     Some (if avg_rating b < avg_rating a then - 1
           else if avg_rating a < avg_rating b then 1
           else if count' b < count' a then - 1
           else if count' a < count' b then 1
           else if string_less (food_name a) (food_name b) then - 1
           else if string_less (food_name b) (food_name a) then 1
           else 0)"

text \<open>
  Modelled from the spec: the rating values 1 to 5 of section 4.3, each with its key in
  the \<open>rating_distribution\<close> object that the client reads.
\<close>

definition rating_keys :: "(string \<times> int) list" where
  "rating_keys = [(''1'', 1), (''2'', 2), (''3'', 3), (''4'', 4), (''5'', 5)]"

text \<open>
  Modelled from the spec: \<open>computeAnalytics\<close> of section 4.3, whose code (the server) is
  missing, applied to the feedback set that the filter has left. The entries are grouped
  by the name of the referenced food item; the groups are sorted by the ranking and
  truncated to the top 5. The distribution counts the entries of each rating value 1 to
  5, with or without a food reference, a value with no entry having the count 0.
\<close>

definition computeAnalytics :: "FeedbackItem list \<Rightarrow> AnalyticsData" where
  "computeAnalytics fs =
     \<lparr> top_rated =
         take 5 (Array_sort rank_compare
                   (map (group_of fs) (remdups (map food_item_name (referenced fs))))),
       rating_distribution =
         map (\<lambda>(key, r). (key, int (length (filter (\<lambda>f. rating f = r) fs)))) rating_keys \<rparr>"

section \<open>Sample values\<close>

text \<open>
  The values the instances below are computed on: two food items that differ in the case
  of the category and in the creation time, a reading of two date strings, a run time
  that parses three response bodies, networks that are down or that give one reply, the
  initial states of the two components, and three feedback entries for one dish.
\<close>

definition sample_Lunch :: FoodItem where
  "sample_Lunch =
     \<lparr> FoodItem.id' = 1, FoodItem.name = ''Rice'', FoodItem.category = ''Lunch'',
       FoodItem.quantity = 40, image_url = [],
       FoodItem.created_at = ''2024-03-01T08:00:00Z'' \<rparr>"

definition sample_lunch :: FoodItem where
  "sample_lunch =
     \<lparr> FoodItem.id' = 2, FoodItem.name = ''Sambar'', FoodItem.category = ''lunch'',
       FoodItem.quantity = 25, image_url = [],
       FoodItem.created_at = ''2024-03-02T08:00:00Z'' \<rparr>"

definition sample_cafe :: FoodItem where
  "sample_cafe =
     \<lparr> FoodItem.id' = 3, FoodItem.name = ''CAF'' @ [CHR 0xC9], FoodItem.category = ''morning'',
       FoodItem.quantity = 10, image_url = [],
       FoodItem.created_at = ''2024-03-03T08:00:00Z'' \<rparr>"

definition sample_getTime :: "string \<Rightarrow> int option" where
  "sample_getTime d =
     (if d = ''2024-03-01T08:00:00Z'' then Some 1709280000000
      else if d = ''2024-03-02T08:00:00Z'' then Some 1709366400000
      else None)"

definition sample_time :: "FoodItem \<Rightarrow> int" where
  "sample_time item =
     (case sample_getTime (FoodItem.created_at item) of Some t \<Rightarrow> t | None \<Rightarrow> 0)"

definition sample_parse :: "string \<Rightarrow> exn + json" where
  \<open>sample_parse t =
     (if t = ''null'' then Inr JNull
      else if t = ''{"role":"admin","username":"root"}''
        then Inr (JObj [(''role'', JStr ''admin''), (''username'', JStr ''root'')])
      else if t = ''{"role":"staff"}'' then Inr (JObj [(''role'', JStr ''staff'')])
      else Inl (Error ''Unexpected token''))\<close>

definition sample_runtime :: runtime where
  "sample_runtime =
     \<lparr> API_BASE_URL = [], JSON_parse = sample_parse, ToString = (\<lambda>v. ''[object Object]''),
       Number = map_of [(''1'', 1), (''2'', 2), (''3'', 3), (''4'', 4), (''5'', 5)],
       toLocaleTimeString = ''8:00:00 AM'', as_items = (\<lambda>v. []), as_item = (\<lambda>v. sample_lunch),
       as_string = (\<lambda>v. []) \<rparr>"

definition network_down :: "'request \<Rightarrow> exn + Response" where
  "network_down request = Inl (TypeError ''Failed to fetch'')"

definition reply :: "string \<Rightarrow> Request \<Rightarrow> exn + Response" where
  "reply t request = Inr \<lparr> ok = True, status = 200, body = Inr t \<rparr>"

definition initial_InventoryState :: InventoryState where
  "initial_InventoryState =
     \<lparr> InventoryState.items = [], InventoryState.name = [], InventoryState.category = [],
       InventoryState.quantity = ''1'', searchTerm = [], activeCategory = ''All'',
       InventoryState.loading = True, InventoryState.submitting = False,
       InventoryState.error = [], InventoryState.lastUpdated = [] \<rparr>"

definition initial_AppState :: AppState where
  "initial_AppState =
     \<lparr> items = [], feedbacks = [],
       analytics = \<lparr> top_rated = [], rating_distribution = [] \<rparr>,
       name = [], category = ''morning'', quantity = ''1'', imageFile = None,
       feedbackMessage = [], feedbackRating = ''5'', feedbackFoodId = [],
       filterSearch = [], filterCategory = [], filterFrom = [], filterTo = [],
       loading = True, submitting = False, feedbackSubmitting = False, error = [],
       feedbackStatus = [], lastUpdated = [], role = None, username = [], password = [],
       currentUser = [], loginError = [], loginLoading = False \<rparr>"

definition rice_feedback :: "int \<Rightarrow> string \<Rightarrow> int \<Rightarrow> FeedbackItem" where
  "rice_feedback i student r =
     \<lparr> id' = i, student_name = student, food_item_id = Some 1, food_item_name = ''Rice'',
       rating = r, message = ''Good'', created_at = ''2024-03-01T09:00:00Z'' \<rparr>"

definition sample_student :: Session where
  "sample_student = \<lparr> identity = ''asha'', session_role = Student \<rparr>"

definition sample_store :: Store where
  "sample_store = \<lparr> food_items = [sample_Lunch, sample_lunch], feedback_entries = [] \<rparr>"

section \<open>Filtering by category and by search term\<close>

lemma includes_str_sublist: "includes_str s q = sublist q s"
  by (induction s) (simp_all add: sublist_Cons_right)

lemma includes_str_iff: "includes_str s q = (\<exists>p r. s = p @ q @ r)"
  by (simp add: includes_str_sublist sublist_def)

lemma includes_str_Nil: "includes_str s []"
  by (simp add: includes_str_sublist)

lemma matchesSearch_empty: "matchesSearch [] item"
  by (simp add: matchesSearch_def)

lemma matchesSearch_iff:
  "matchesSearch q item =
     ((\<exists>p r. toLowerCase (FoodItem.name item) = p @ q @ r)
      \<or> (\<exists>p r. toLowerCase (FoodItem.category item) = p @ q @ r))"
proof -
  have "length q = 0 \<Longrightarrow> includes_str (toLowerCase (FoodItem.name item)) q"
    by (simp add: includes_str_Nil)
  then have "matchesSearch q item =
      (includes_str (toLowerCase (FoodItem.name item)) q
       \<or> includes_str (toLowerCase (FoodItem.category item)) q)"
    unfolding matchesSearch_def by blast
  then show ?thesis by (simp only: includes_str_iff)
qed

lemma toLowerCase_Lunch: "toLowerCase ''Lunch'' = ''lunch''"
  by (simp add: toLowerCase_def lower_char_def)

lemma trim_empty: "toLowerCase (trim []) = []"
  by (simp add: toLowerCase_def trim_def)

text \<open>
  The two string methods by code unit: \<open>trim\<close> removes exactly the seven white space
  characters below U+0100, and \<open>toLowerCase\<close> adds 32 exactly to the upper case letters
  below U+0100.
\<close>

lemma is_space_code:
  "is_space c = ((of_char c :: nat) \<in> {9, 10, 11, 12, 13, 32, 160})"
  by (cases c) (simp add: is_space_def, blast?)

lemma lower_char_code:
  "(of_char (lower_char c) :: nat) =
     (if (65 \<le> (of_char c :: nat) \<and> (of_char c :: nat) \<le> 90)
         \<or> (192 \<le> (of_char c :: nat) \<and> (of_char c :: nat) \<le> 214)
         \<or> (216 \<le> (of_char c :: nat) \<and> (of_char c :: nat) \<le> 222)
      then of_char c + 32 else of_char c)"
proof (cases c)
  case (Char b0 b1 b2 b3 b4 b5 b6 b7)
  show ?thesis
    unfolding Char
    by (cases b0; cases b1; cases b2; cases b3; cases b4; cases b5; cases b6; cases b7;
        simp add: lower_char_def)
qed

lemma trim_no_break_space: "trim ([CHR 0xA0] @ ''rice'' @ [CHR 0xA0, CHR 0x20]) = ''rice''"
  by (simp add: trim_def is_space_def)

lemma toLowerCase_latin1: "toLowerCase (''CAF'' @ [CHR 0xC9]) = ''caf'' @ [CHR 0xE9]"
  by (simp add: toLowerCase_def lower_char_def)

lemma toLowerCase_unmapped:
  "toLowerCase [CHR 0xD7, CHR 0xDF, CHR 0xB5, CHR 0xFF, CHR ''['', CHR ''@'']
     = [CHR 0xD7, CHR 0xDF, CHR 0xB5, CHR 0xFF, CHR ''['', CHR ''@'']"
  by (simp add: toLowerCase_def lower_char_def)

text \<open>
  A search term that is a no-break space is empty once trimmed and keeps every item; a
  name in upper case with an accented letter is found by the same name in lower case.
\<close>

lemma filteredItems_no_break_space:
  "filteredItems [sample_Lunch, sample_lunch] ''All'' [CHR 0xA0] = [sample_Lunch, sample_lunch]"
  by (simp add: filteredItems_def trim_def is_space_def toLowerCase_def matchesCategory_def
      matchesSearch_def)

lemma filteredItems_latin1:
  "filteredItems [sample_cafe] ''All'' (''caf'' @ [CHR 0xE9]) = [sample_cafe]"
  by (simp add: filteredItems_def sample_cafe_def trim_def is_space_def toLowerCase_def
      lower_char_def matchesCategory_def matchesSearch_def)

text \<open>
  C1, as amended. With an empty search term, \<open>filteredItems\<close> for an active category
  \<open>c\<close> other than the entry \<open>All\<close> of the selector returns exactly the items whose
  category equals \<open>c\<close>, compared as it stands (case-sensitive); for \<open>All\<close> it returns
  every item. An item stored with the category \<open>Lunch\<close> is not returned for
  \<open>c = lunch\<close>, whatever the search term. The menus of the student page compare the
  lowercased category: each holds exactly the items whose category, lowercased, is the
  name of the session, so an item stored with the category \<open>Lunch\<close> is in the lunch menu.
\<close>

theorem category_filter_exact_or_lowercased:
  "(c \<noteq> ''All'' \<longrightarrow>
      filteredItems stored c [] = filter (\<lambda>item. FoodItem.category item = c) stored)
   \<and> filteredItems stored ''All'' [] = stored
   \<and> (FoodItem.category item = ''Lunch'' \<longrightarrow>
        item \<notin> set (filteredItems stored ''lunch'' search))
   \<and> morning (todayMenus stored)
        = filter (\<lambda>item. toLowerCase (FoodItem.category item) = ''morning'') stored
   \<and> lunch (todayMenus stored)
        = filter (\<lambda>item. toLowerCase (FoodItem.category item) = ''lunch'') stored
   \<and> dinner (todayMenus stored)
        = filter (\<lambda>item. toLowerCase (FoodItem.category item) = ''dinner'') stored
   \<and> (item \<in> set stored \<and> FoodItem.category item = ''Lunch'' \<longrightarrow>
        item \<in> set (lunch (todayMenus stored)))"
proof -
  have a: "c \<noteq> ''All'' \<longrightarrow>
      filteredItems stored c [] = filter (\<lambda>item. FoodItem.category item = c) stored"
    by (simp add: filteredItems_def trim_empty matchesCategory_def matchesSearch_empty)
  have b: "filteredItems stored ''All'' [] = stored"
    by (simp add: filteredItems_def trim_empty matchesCategory_def matchesSearch_empty)
  have c: "FoodItem.category item = ''Lunch'' \<longrightarrow>
      item \<notin> set (filteredItems stored ''lunch'' search)"
    by (simp add: filteredItems_def matchesCategory_def)
  have d: "item \<in> set stored \<and> FoodItem.category item = ''Lunch'' \<longrightarrow>
      item \<in> set (lunch (todayMenus stored))"
    by (simp add: todayMenus_def toLowerCase_Lunch)
  show ?thesis using a b c d by (simp add: todayMenus_def)
qed

text \<open>
  C1 as stated fails twice. The lunch menu of the student page returns the item stored
  with the category \<open>Lunch\<close>, which differs from \<open>lunch\<close>; and for the filter string
  \<open>All\<close> the inventory list returns an item whose category is not \<open>All\<close>.
\<close>

theorem category_filter_case_counterexample:
  "lunch (todayMenus [sample_Lunch]) = [sample_Lunch]
   \<and> FoodItem.category sample_Lunch \<noteq> ''lunch''
   \<and> filteredItems [sample_Lunch] ''All'' [] = [sample_Lunch]
   \<and> FoodItem.category sample_Lunch \<noteq> ''All''"
  by (simp add: todayMenus_def sample_Lunch_def toLowerCase_def lower_char_def
      filteredItems_def trim_def matchesCategory_def matchesSearch_def)

theorem category_filter_witness:
  "''lunch'' \<noteq> ''All''
   \<and> filteredItems [sample_Lunch, sample_lunch] ''lunch'' [] = [sample_lunch]
   \<and> FoodItem.category sample_Lunch = ''Lunch''
   \<and> sample_Lunch \<notin> set (filteredItems [sample_Lunch, sample_lunch] ''lunch'' [])
   \<and> sample_Lunch \<in> set [sample_Lunch, sample_lunch]
   \<and> sample_Lunch \<in> set (lunch (todayMenus [sample_Lunch, sample_lunch]))"
  using category_filter_exact_or_lowercased
          [of "''lunch''" "[sample_Lunch, sample_lunch]" sample_Lunch "[]"]
  by (simp add: sample_Lunch_def sample_lunch_def filteredItems_def trim_empty
      matchesCategory_def matchesSearch_empty todayMenus_def toLowerCase_Lunch)

text \<open>
  C3, as amended. For every item list, active category and search term, \<open>filteredItems\<close>
  retains exactly the items that pass the category selector and whose lowercased name or
  lowercased category contains the trimmed, lowercased search term as a substring. An
  item whose name does not contain the term is retained when its category contains it.
\<close>

theorem filteredItems_search_name_or_category:
  "filteredItems stored active search =
     filter (\<lambda>item. (active = ''All'' \<or> FoodItem.category item = active)
               \<and> ((\<exists>p r. toLowerCase (FoodItem.name item)
                            = p @ toLowerCase (trim search) @ r)
                  \<or> (\<exists>p r. toLowerCase (FoodItem.category item)
                              = p @ toLowerCase (trim search) @ r)))
            stored"
  by (simp add: filteredItems_def Let_def matchesCategory_def matchesSearch_iff)

text \<open>
  C3 as stated fails: the item named \<open>Rice\<close> with the category \<open>Lunch\<close> is retained for
  the search term \<open>lunch\<close>, which its lowercased name does not contain.
\<close>

theorem search_matches_category_counterexample:
  "filteredItems [sample_Lunch] ''All'' ''lunch'' = [sample_Lunch]
   \<and> \<not> includes_str (toLowerCase (FoodItem.name sample_Lunch)) (toLowerCase ''lunch'')"
  by (simp add: sample_Lunch_def toLowerCase_def lower_char_def filteredItems_def
      trim_def is_space_def matchesCategory_def matchesSearch_def)

section \<open>The history is sorted, newest first\<close>

lemma mset_insert_sorted: "mset (insert_sorted f x ys) = add_mset x (mset ys)"
  by (induction ys) simp_all

lemma mset_Array_sort: "mset (Array_sort f xs) = mset xs"
  by (induction xs) (simp_all add: Array_sort_def mset_insert_sorted)

lemma set_insert_sorted: "set (insert_sorted f x ys) = insert x (set ys)"
  by (induction ys) auto

lemma sorted_insert_sorted:
  assumes "\<And>a b. a \<in> insert x (set ys) \<Longrightarrow> b \<in> insert x (set ys)
             \<Longrightarrow> SortCompare f a b = t b - t a"
    and "sorted_wrt (\<lambda>a b. t b \<le> t a) ys"
  shows "sorted_wrt (\<lambda>a b. (t b :: int) \<le> t a) (insert_sorted f x ys)"
  using assms
proof (induction ys)
  case Nil
  then show ?case by simp
next
  case (Cons y ys)
  show ?case
  proof (cases "SortCompare f x y \<le> 0")
    case True
    then have "t y \<le> t x" using Cons.prems(1)[of x y] by simp
    then show ?thesis using True Cons.prems(2) by auto
  next
    case False
    then have xy: "t x \<le> t y" using Cons.prems(1)[of x y] by simp
    have "sorted_wrt (\<lambda>a b. t b \<le> t a) (insert_sorted f x ys)"
      using Cons.IH Cons.prems by auto
    then show ?thesis using False xy Cons.prems(2) by (auto simp: set_insert_sorted)
  qed
qed

lemma sorted_Array_sort:
  assumes "\<And>a b. a \<in> set xs \<Longrightarrow> b \<in> set xs \<Longrightarrow> SortCompare f a b = t b - t a"
  shows "sorted_wrt (\<lambda>a b. (t b :: int) \<le> t a) (Array_sort f xs)"
  using assms
proof (induction xs)
  case Nil
  then show ?case by (simp add: Array_sort_def)
next
  case (Cons x xs)
  have ih: "sorted_wrt (\<lambda>a b. t b \<le> t a) (Array_sort f xs)"
    using Cons by auto
  have s: "set (Array_sort f xs) = set xs"
    using mset_Array_sort[of f xs] by (metis set_mset_mset)
  have "sorted_wrt (\<lambda>a b. t b \<le> t a) (insert_sorted f x (Array_sort f xs))"
    by (rule sorted_insert_sorted) (use Cons.prems ih s in auto)
  then show ?case by (simp add: Array_sort_def)
qed

lemma SortCompare_byCreatedDesc:
  "getTime (FoodItem.created_at a) = Some ta \<Longrightarrow> getTime (FoodItem.created_at b) = Some tb
     \<Longrightarrow> SortCompare (byCreatedDesc getTime) a b = tb - ta"
  by (simp add: SortCompare_def byCreatedDesc_def)

text \<open>
  C4. For every list of loaded food items whose creation timestamps are dates (\<open>t item\<close>
  is the time of \<open>item\<close>), the history holds all of the items, each as often as the list
  does, in descending order of creation time.
\<close>

theorem sortedHistory_descending_permutation:
  assumes "\<forall>item \<in> set loaded. getTime (FoodItem.created_at item) = Some (t item)"
  shows "mset (sortedHistory getTime loaded) = mset loaded
       \<and> sorted_wrt (\<lambda>a b. t a \<ge> t b) (sortedHistory getTime loaded)"
proof -
  have "sorted_wrt (\<lambda>a b. t b \<le> t a) (Array_sort (byCreatedDesc getTime) loaded)"
    by (rule sorted_Array_sort) (simp add: SortCompare_byCreatedDesc assms)
  then show ?thesis by (simp add: sortedHistory_def mset_Array_sort)
qed

theorem sortedHistory_descending_permutation_witness:
  "sample_getTime (FoodItem.created_at sample_Lunch) = Some (sample_time sample_Lunch)
   \<and> sample_getTime (FoodItem.created_at sample_lunch) = Some (sample_time sample_lunch)
   \<and> sample_time sample_Lunch < sample_time sample_lunch
   \<and> sortedHistory sample_getTime [sample_Lunch, sample_lunch] = [sample_lunch, sample_Lunch]
   \<and> mset (sortedHistory sample_getTime [sample_Lunch, sample_lunch])
       = mset [sample_Lunch, sample_lunch]
   \<and> sorted_wrt (\<lambda>a b. sample_time a \<ge> sample_time b)
       (sortedHistory sample_getTime [sample_Lunch, sample_lunch])"
proof -
  have h: "\<forall>item \<in> set [sample_Lunch, sample_lunch].
       sample_getTime (FoodItem.created_at item) = Some (sample_time item)"
    by (simp add: sample_Lunch_def sample_lunch_def sample_getTime_def sample_time_def)
  have l: "sample_time sample_Lunch < sample_time sample_lunch"
    by (simp add: sample_Lunch_def sample_lunch_def sample_getTime_def sample_time_def)
  have e: "sortedHistory sample_getTime [sample_Lunch, sample_lunch] = [sample_lunch, sample_Lunch]"
    by (simp add: sortedHistory_def Array_sort_def SortCompare_def byCreatedDesc_def
        sample_Lunch_def sample_lunch_def sample_getTime_def)
  show ?thesis
    using h l e sortedHistory_descending_permutation [OF h] by simp
qed

section \<open>Reading a response body\<close>

text \<open>
  C10. For every response whose body has been read as the text \<open>t\<close>, \<open>readJsonSafely\<close>
  returns a value and throws nothing: the parsed value when \<open>t\<close> is not empty and
  \<^verbatim>\<open>JSON.parse\<close> accepts it, and \<open>null\<close> both when \<open>t\<close> is empty and when
  \<^verbatim>\<open>JSON.parse\<close> throws, so that a caller sees the same for an empty and for a
  malformed body.
\<close>

theorem readJsonSafely_total:
  "(\<exists>v. readJsonSafely rt (response\<lparr>body := Inr t\<rparr>) = Inr v)
   \<and> (t \<noteq> [] \<and> JSON_parse rt t = Inr v
        \<longrightarrow> readJsonSafely rt (response\<lparr>body := Inr t\<rparr>) = Inr v)
   \<and> (t = [] \<longrightarrow> readJsonSafely rt (response\<lparr>body := Inr t\<rparr>) = Inr JNull)
   \<and> (JSON_parse rt t = Inl e
        \<longrightarrow> readJsonSafely rt (response\<lparr>body := Inr t\<rparr>) = Inr JNull)"
  by (simp add: readJsonSafely_def split: sum.splits)

theorem readJsonSafely_total_witness:
  \<open>''{"role":"staff"}'' \<noteq> []
   \<and> JSON_parse sample_runtime ''{"role":"staff"}'' = Inr (JObj [(''role'', JStr ''staff'')])
   \<and> readJsonSafely sample_runtime \<lparr>ok = True, status = 200, body = Inr ''{"role":"staff"}''\<rparr>
       = Inr (JObj [(''role'', JStr ''staff'')])
   \<and> readJsonSafely sample_runtime \<lparr>ok = True, status = 200, body = Inr []\<rparr> = Inr JNull
   \<and> JSON_parse sample_runtime ''{'' = Inl (Error ''Unexpected token'')
   \<and> readJsonSafely sample_runtime \<lparr>ok = True, status = 200, body = Inr ''{''\<rparr> = Inr JNull\<close>
  using readJsonSafely_total
          [where rt = sample_runtime and t = \<open>''{"role":"staff"}''\<close>
             and response = \<open>\<lparr>ok = True, status = 200, body = Inr []\<rparr>\<close>
             and v = \<open>JObj [(''role'', JStr ''staff'')]\<close> and e = \<open>Error ''Unexpected token''\<close>]
        readJsonSafely_total
          [where rt = sample_runtime and t = \<open>[]\<close>
             and response = \<open>\<lparr>ok = True, status = 200, body = Inr []\<rparr>\<close>
             and v = JNull and e = \<open>Error ''Unexpected token''\<close>]
        readJsonSafely_total
          [where rt = sample_runtime and t = \<open>''{''\<close>
             and response = \<open>\<lparr>ok = True, status = 200, body = Inr []\<rparr>\<close>
             and v = JNull and e = \<open>Error ''Unexpected token''\<close>]
  by (simp add: sample_runtime_def sample_parse_def)

section \<open>A transport failure in the inventory component\<close>

text \<open>
  C9, as amended. When \<^verbatim>\<open>fetch\<close> rejects with a \<open>TypeError\<close> (the transport has
  failed and there is no response, hence no message of the server), \<open>loadItems\<close> and
  \<open>handleSubmit\<close> of the inventory component set the error to the fixed text, while
  \<open>loadItems\<close> and \<open>handleSubmit\<close> of the portal set it to the message of the
  \<open>TypeError\<close> itself. In both components each handler has issued its one request and
  no other: nothing is retried.
\<close>

theorem transport_failure_message_by_component:
  "(fetch (loadItems_request rt) = Inl (TypeError m) \<longrightarrow>
      InventoryState.error (fst (loadItems rt fetch st))
        = ''Cannot reach backend API. Start Django server on http://localhost:8000.''
      \<and> snd (loadItems rt fetch st) = [loadItems_request rt])
   \<and> (fetch (handleSubmit_request rt st) = Inl (TypeError m) \<longrightarrow>
      InventoryState.error (fst (handleSubmit rt fetch st))
        = ''Cannot reach backend API. Start Django server on http://localhost:8000.''
      \<and> snd (handleSubmit rt fetch st) = [handleSubmit_request rt st])
   \<and> (fetch (filtered_get (FOOD_URL rt) pst) = Inl (TypeError m) \<longrightarrow>
      AppState.error (fst (portal_loadItems rt fetch pst)) = m
      \<and> snd (portal_loadItems rt fetch pst) = [filtered_get (FOOD_URL rt) pst])
   \<and> (form_fetch (portal_handleSubmit_request rt pst) = Inl (TypeError m) \<longrightarrow>
      AppState.error (fst (portal_handleSubmit rt form_fetch pst)) = m
      \<and> snd (portal_handleSubmit rt form_fetch pst) = [portal_handleSubmit_request rt pst])"
  by (simp add: loadItems_def loadItems_try_def handleSubmit_def handleSubmit_try_def
      inventory_catch_def unreachable_message_def portal_loadItems_def
      portal_loadItems_try_def portal_handleSubmit_def portal_handleSubmit_try_def
      message_or_def Let_def)

text \<open>
  C9 as stated fails in the portal: with the network down, its \<open>loadItems\<close> and its
  \<open>handleSubmit\<close> show the message of the \<open>TypeError\<close>, which is not the fixed text.
\<close>

theorem portal_transport_failure_counterexample:
  "network_down (filtered_get (FOOD_URL sample_runtime) initial_AppState)
     = Inl (TypeError ''Failed to fetch'')
   \<and> AppState.error (fst (portal_loadItems sample_runtime network_down initial_AppState))
       = ''Failed to fetch''
   \<and> AppState.error (fst (portal_loadItems sample_runtime network_down initial_AppState))
       \<noteq> ''Cannot reach backend API. Start Django server on http://localhost:8000.''
   \<and> network_down (portal_handleSubmit_request sample_runtime initial_AppState)
       = Inl (TypeError ''Failed to fetch'')
   \<and> AppState.error (fst (portal_handleSubmit sample_runtime network_down initial_AppState))
       = ''Failed to fetch''
   \<and> AppState.error (fst (portal_handleSubmit sample_runtime network_down initial_AppState))
       \<noteq> ''Cannot reach backend API. Start Django server on http://localhost:8000.''"
  by (simp add: network_down_def portal_loadItems_def portal_loadItems_try_def
      portal_handleSubmit_def portal_handleSubmit_try_def message_or_def Let_def)

theorem transport_failure_message_by_component_witness:
  "network_down (loadItems_request sample_runtime) = Inl (TypeError ''Failed to fetch'')
   \<and> InventoryState.error (fst (loadItems sample_runtime network_down initial_InventoryState))
       = ''Cannot reach backend API. Start Django server on http://localhost:8000.''
   \<and> length (snd (loadItems sample_runtime network_down initial_InventoryState)) = 1
   \<and> network_down (handleSubmit_request sample_runtime initial_InventoryState)
       = Inl (TypeError ''Failed to fetch'')
   \<and> InventoryState.error (fst (handleSubmit sample_runtime network_down initial_InventoryState))
       = ''Cannot reach backend API. Start Django server on http://localhost:8000.''
   \<and> length (snd (handleSubmit sample_runtime network_down initial_InventoryState)) = 1
   \<and> network_down (filtered_get (FOOD_URL sample_runtime) initial_AppState)
       = Inl (TypeError ''Failed to fetch'')
   \<and> AppState.error (fst (portal_loadItems sample_runtime network_down initial_AppState))
       = ''Failed to fetch''
   \<and> length (snd (portal_loadItems sample_runtime network_down initial_AppState)) = 1
   \<and> network_down (portal_handleSubmit_request sample_runtime initial_AppState)
       = Inl (TypeError ''Failed to fetch'')
   \<and> AppState.error (fst (portal_handleSubmit sample_runtime network_down initial_AppState))
       = ''Failed to fetch''
   \<and> length (snd (portal_handleSubmit sample_runtime network_down initial_AppState)) = 1"
  using transport_failure_message_by_component
          [where fetch = network_down and form_fetch = network_down and rt = sample_runtime
             and m = "''Failed to fetch''" and st = initial_InventoryState
             and pst = initial_AppState]
  by (simp add: network_down_def)

text \<open>
  Other failures keep their own message: a response that is not \<open>ok\<close> shows the fixed
  text of the handler or the error of the server, never the text for a transport failure.
\<close>

lemma loadItems_not_ok:
  "fetch (loadItems_request rt) = Inr response \<Longrightarrow> \<not> ok response \<Longrightarrow>
     InventoryState.error (fst (loadItems rt fetch st)) = ''Unable to load food items.''"
  by (simp add: loadItems_def loadItems_try_def inventory_catch_def message_or_def Let_def)

section \<open>Logout\<close>

text \<open>
  C7. \<open>handleLogout\<close> issues no request, and the effect that follows the change of
  \<open>role\<close> issues none either, so a server that changes its store only on a request
  (\<open>serve\<close>) keeps its store \<open>db\<close>. The loaded items and feedbacks are unchanged; the
  role, the current user, the login error and the feedback status are cleared; and
  putting these four fields back gives the state before the logout, so nothing else has
  changed.
\<close>

theorem handleLogout_frame:
  "snd (handleLogout st) = []
   \<and> role_effect_requests rt (fst (handleLogout st)) = []
   \<and> foldl serve db (snd (handleLogout st) @ role_effect_requests rt (fst (handleLogout st))) = db
   \<and> AppState.items (fst (handleLogout st)) = AppState.items st
   \<and> feedbacks (fst (handleLogout st)) = feedbacks st
   \<and> role (fst (handleLogout st)) = None
   \<and> currentUser (fst (handleLogout st)) = []
   \<and> loginError (fst (handleLogout st)) = []
   \<and> feedbackStatus (fst (handleLogout st)) = []
   \<and> (fst (handleLogout st))\<lparr>role := role st, currentUser := currentUser st,
         loginError := loginError st, feedbackStatus := feedbackStatus st\<rparr> = st"
  by (simp add: handleLogout_def role_effect_requests_def)

section \<open>Login\<close>

lemma handleLogin_try_Inr:
  assumes "handleLogin_try rt fetch st = Inr (r, u)"
  shows "(r = ''student'' \<or> r = ''admin'')
       \<and> (\<exists>response data. fetch (handleLogin_request rt st) = Inr response \<and> ok response
             \<and> readJsonSafely rt response = Inr data \<and> member data ''role'' = Some (JStr r))"
  using assms
  by (auto simp: handleLogin_try_def invalid_login_def
      split: sum.splits if_splits option.splits json.splits)

lemma handleLogin_try_invalid:
  assumes "fetch (handleLogin_request rt st) = Inr response" and "ok response"
    and "readJsonSafely rt response = Inr data"
    and "member data ''role'' \<noteq> Some (JStr ''student'')"
    and "member data ''role'' \<noteq> Some (JStr ''admin'')"
  shows "handleLogin_try rt fetch st = Inl invalid_login"
  using assms
  by (auto simp: handleLogin_try_def split: option.splits json.splits)

text \<open>
  C8. A login attempt starts on the login form, which is shown only while \<open>role\<close> is
  \<open>null\<close>. After the attempt, either the role is still \<open>null\<close>, the attempt has thrown
  and the login error is the message of what was thrown; or the role is one of the
  strings \<open>student\<close> and \<open>admin\<close>, and it is the \<open>role\<close> member of the body of a
  response that was \<open>ok\<close>. A response that is \<open>ok\<close> and whose body has any other
  \<open>role\<close> member, or none, leaves the role \<open>null\<close> and sets the login error to
  \<open>Invalid login response from backend.\<close>
\<close>

theorem handleLogin_role_invariant:
  assumes "role st = None"
  shows "((role (fst (handleLogin rt fetch st)) = None
           \<and> (\<exists>err. handleLogin_try rt fetch st = Inl err
                 \<and> loginError (fst (handleLogin rt fetch st))
                     = message_or err ''Unexpected login error.''))
          \<or> (\<exists>r. role (fst (handleLogin rt fetch st)) = Some r
                \<and> (r = ''student'' \<or> r = ''admin'')
                \<and> (\<exists>response data. fetch (handleLogin_request rt st) = Inr response
                      \<and> ok response \<and> readJsonSafely rt response = Inr data
                      \<and> member data ''role'' = Some (JStr r))))
       \<and> (fetch (handleLogin_request rt st) = Inr response' \<and> ok response'
            \<and> readJsonSafely rt response' = Inr data'
            \<and> member data' ''role'' \<noteq> Some (JStr ''student'')
            \<and> member data' ''role'' \<noteq> Some (JStr ''admin'')
          \<longrightarrow> role (fst (handleLogin rt fetch st)) = None
              \<and> loginError (fst (handleLogin rt fetch st))
                  = ''Invalid login response from backend.'')"
proof -
  have A: "(role (fst (handleLogin rt fetch st)) = None
           \<and> (\<exists>err. handleLogin_try rt fetch st = Inl err
                 \<and> loginError (fst (handleLogin rt fetch st))
                     = message_or err ''Unexpected login error.''))
          \<or> (\<exists>r. role (fst (handleLogin rt fetch st)) = Some r
                \<and> (r = ''student'' \<or> r = ''admin'')
                \<and> (\<exists>response data. fetch (handleLogin_request rt st) = Inr response
                      \<and> ok response \<and> readJsonSafely rt response = Inr data
                      \<and> member data ''role'' = Some (JStr r)))"
  proof (cases "handleLogin_try rt fetch st")
    case (Inl err)
    then show ?thesis using assms by (simp add: handleLogin_def Let_def)
  next
    case (Inr p)
    obtain r u where p: "p = (r, u)" by (cases p)
    have "role (fst (handleLogin rt fetch st)) = Some r"
      using Inr p by (simp add: handleLogin_def Let_def)
    then show ?thesis
      using handleLogin_try_Inr[of rt fetch st r u] Inr p by blast
  qed
  have B: "fetch (handleLogin_request rt st) = Inr response' \<and> ok response'
            \<and> readJsonSafely rt response' = Inr data'
            \<and> member data' ''role'' \<noteq> Some (JStr ''student'')
            \<and> member data' ''role'' \<noteq> Some (JStr ''admin'')
          \<longrightarrow> role (fst (handleLogin rt fetch st)) = None
              \<and> loginError (fst (handleLogin rt fetch st))
                  = ''Invalid login response from backend.''"
    using assms handleLogin_try_invalid[of fetch rt st response' data']
    by (auto simp: handleLogin_def Let_def invalid_login_def message_or_def)
  show ?thesis using A B by blast
qed

theorem handleLogin_role_invariant_witness:
  \<open>role initial_AppState = None
   \<and> role (fst (handleLogin sample_runtime (reply ''{"role":"admin","username":"root"}'')
                  initial_AppState)) = Some ''admin''
   \<and> reply ''{"role":"staff"}'' (handleLogin_request sample_runtime initial_AppState)
       = Inr \<lparr>ok = True, status = 200, body = Inr ''{"role":"staff"}''\<rparr>
   \<and> readJsonSafely sample_runtime \<lparr>ok = True, status = 200, body = Inr ''{"role":"staff"}''\<rparr>
       = Inr (JObj [(''role'', JStr ''staff'')])
   \<and> member (JObj [(''role'', JStr ''staff'')]) ''role'' = Some (JStr ''staff'')
   \<and> role (fst (handleLogin sample_runtime (reply ''{"role":"staff"}'') initial_AppState)) = None
   \<and> loginError (fst (handleLogin sample_runtime (reply ''{"role":"staff"}'') initial_AppState))
       = ''Invalid login response from backend.''\<close>
proof -
  have h: \<open>role initial_AppState = None\<close>
    by (simp add: initial_AppState_def)
  have a: \<open>role (fst (handleLogin sample_runtime (reply ''{"role":"admin","username":"root"}'')
                  initial_AppState)) = Some ''admin''\<close>
    by (simp add: handleLogin_def handleLogin_try_def reply_def readJsonSafely_def
        sample_runtime_def sample_parse_def nullish_def Let_def)
  have r: \<open>readJsonSafely sample_runtime \<lparr>ok = True, status = 200, body = Inr ''{"role":"staff"}''\<rparr>
       = Inr (JObj [(''role'', JStr ''staff'')])\<close>
    by (simp add: readJsonSafely_def sample_runtime_def sample_parse_def)
  show ?thesis
    using h a r
      handleLogin_role_invariant
        [OF h, where rt = sample_runtime and fetch = \<open>reply ''{"role":"staff"}''\<close>
           and response' = \<open>\<lparr>ok = True, status = 200, body = Inr ''{"role":"staff"}''\<rparr>\<close>
           and data' = \<open>JObj [(''role'', JStr ''staff'')]\<close>]
    by (simp add: reply_def)
qed

section \<open>The feedback request\<close>

lemma map_of_without:
  "k \<noteq> x \<Longrightarrow> map_of (filter (\<lambda>(key, v). key \<noteq> x) kvs) k = map_of kvs k"
  by (induction kvs) auto

lemma member_without:
  "k \<noteq> x \<Longrightarrow> member (JObj (filter (\<lambda>(key, v). key \<noteq> x) kvs)) k = member (JObj kvs) k"
  by (simp add: rev_filter map_of_without)

lemma decode_feedback_without:
  "decode_feedback (JObj (filter (\<lambda>(key, v). key \<noteq> ''student_name'') kvs))
     = decode_feedback (JObj kvs)"
proof -
  have "member (JObj (filter (\<lambda>(key, v). key \<noteq> ''student_name'') kvs)) ''message''
          = member (JObj kvs) ''message''"
    and "member (JObj (filter (\<lambda>(key, v). key \<noteq> ''student_name'') kvs)) ''rating''
          = member (JObj kvs) ''rating''"
    and "member (JObj (filter (\<lambda>(key, v). key \<noteq> ''student_name'') kvs)) ''food_item_id''
          = member (JObj kvs) ''food_item_id''"
    by (rule member_without, simp)+
  then show ?thesis by (simp only: decode_feedback_def)
qed

lemma post_feedback_student_name:
  assumes "post_feedback store session now b = Inr (entry, store')"
  shows "\<exists>s. session = Some s \<and> student_name entry = identity s"
  using assms
  by (auto simp: post_feedback_def createFeedback_def Let_def
      split: option.splits if_splits sum.splits prod.splits)

text \<open>
  C6. The request that \<open>handleFeedbackSubmit\<close> issues is determined by the message, the
  rating and the food item of the form: two states that agree on these three fields,
  whatever their user, role or other fields and whatever the network answers, issue the
  same single request. Its body is the object with exactly the keys \<open>message\<close>,
  \<open>rating\<close> and \<open>food_item_id\<close>, so it has no field for the identity of the student.
  On the server, whatever body a client sends, hand-made or not, an entry that is
  created has the identity of the session as its student name; and the members
  \<open>student_name\<close> of a body change nothing: the result is that for the body without them.
\<close>

theorem feedback_payload_independent_of_identity:
  assumes "feedbackMessage st_a = feedbackMessage st_b"
    and "feedbackRating st_a = feedbackRating st_b"
    and "feedbackFoodId st_a = feedbackFoodId st_b"
  shows "snd (handleFeedbackSubmit rt fetch_a st_a) = snd (handleFeedbackSubmit rt fetch_b st_b)
       \<and> snd (handleFeedbackSubmit rt fetch_a st_a) = [handleFeedbackSubmit_request rt st_a]
       \<and> payload (handleFeedbackSubmit_request rt st_a) = Some (feedback_payload rt st_a)
       \<and> keys_of (feedback_payload rt st_a) = [''message'', ''rating'', ''food_item_id'']
       \<and> (post_feedback store session now b = Inr (entry, store')
            \<longrightarrow> (\<exists>s. session = Some s \<and> student_name entry = identity s))
       \<and> post_feedback store session now
            (JObj (filter (\<lambda>(key, v). key \<noteq> ''student_name'') members))
          = post_feedback store session now (JObj members)"
proof -
  have client: "snd (handleFeedbackSubmit rt fetch_a st_a) = snd (handleFeedbackSubmit rt fetch_b st_b)
       \<and> snd (handleFeedbackSubmit rt fetch_a st_a) = [handleFeedbackSubmit_request rt st_a]
       \<and> payload (handleFeedbackSubmit_request rt st_a) = Some (feedback_payload rt st_a)
       \<and> keys_of (feedback_payload rt st_a) = [''message'', ''rating'', ''food_item_id'']"
    using assms
    by (simp add: handleFeedbackSubmit_def handleFeedbackSubmit_request_def
        feedback_payload_def Let_def)
  have attributed: "post_feedback store session now b = Inr (entry, store')
            \<longrightarrow> (\<exists>s. session = Some s \<and> student_name entry = identity s)"
    using post_feedback_student_name by blast
  have ignored: "post_feedback store session now
            (JObj (filter (\<lambda>(key, v). key \<noteq> ''student_name'') members))
          = post_feedback store session now (JObj members)"
    by (simp only: post_feedback_def decode_feedback_without)
  show ?thesis using client attributed ignored by blast
qed

theorem feedback_payload_independent_of_identity_witness:
  "feedbackMessage (initial_AppState\<lparr>role := Some ''student'', currentUser := ''asha'',
        username := ''asha'', feedbackMessage := ''Tasty rice''\<rparr>)
     = feedbackMessage (initial_AppState\<lparr>role := Some ''student'', currentUser := ''ravi'',
        username := ''ravi'', feedbackMessage := ''Tasty rice''\<rparr>)
   \<and> snd (handleFeedbackSubmit sample_runtime network_down
        (initial_AppState\<lparr>role := Some ''student'', currentUser := ''asha'',
           username := ''asha'', feedbackMessage := ''Tasty rice''\<rparr>))
     = snd (handleFeedbackSubmit sample_runtime (reply [])
        (initial_AppState\<lparr>role := Some ''student'', currentUser := ''ravi'',
           username := ''ravi'', feedbackMessage := ''Tasty rice''\<rparr>))
   \<and> payload (handleFeedbackSubmit_request sample_runtime
        (initial_AppState\<lparr>role := Some ''student'', currentUser := ''asha'',
           username := ''asha'', feedbackMessage := ''Tasty rice''\<rparr>))
     = Some (JObj [(''message'', JStr ''Tasty rice''), (''rating'', JNum 5),
                   (''food_item_id'', JNull)])
   \<and> post_feedback sample_store (Some sample_student) ''2024-03-01T09:00:00Z''
        (JObj [(''student_name'', JStr ''ravi''), (''message'', JStr ''Tasty rice''),
               (''rating'', JNum 5), (''food_item_id'', JNull)])
     = Inr (\<lparr> id' = 1, student_name = ''asha'', food_item_id = None, food_item_name = [],
              rating = 5, message = ''Tasty rice'', created_at = ''2024-03-01T09:00:00Z'' \<rparr>,
            sample_store\<lparr>feedback_entries :=
              [\<lparr> id' = 1, student_name = ''asha'', food_item_id = None, food_item_name = [],
                 rating = 5, message = ''Tasty rice'',
                 created_at = ''2024-03-01T09:00:00Z'' \<rparr>]\<rparr>)
   \<and> identity sample_student = ''asha''"
  using feedback_payload_independent_of_identity
          [where rt = sample_runtime and fetch_a = network_down and fetch_b = "reply []"
             and st_a = "initial_AppState\<lparr>role := Some ''student'', currentUser := ''asha'',
                          username := ''asha'', feedbackMessage := ''Tasty rice''\<rparr>"
             and st_b = "initial_AppState\<lparr>role := Some ''student'', currentUser := ''ravi'',
                          username := ''ravi'', feedbackMessage := ''Tasty rice''\<rparr>"
             and store = sample_store and session = "Some sample_student"
             and now = "''2024-03-01T09:00:00Z''"
             and b = "JObj [(''student_name'', JStr ''ravi''), (''message'', JStr ''Tasty rice''),
                            (''rating'', JNum 5), (''food_item_id'', JNull)]"
             and members = "[(''student_name'', JStr ''ravi''),
                             (''message'', JStr ''Tasty rice''), (''rating'', JNum 5),
                             (''food_item_id'', JNull)]"]
  by (simp add: initial_AppState_def feedback_payload_def sample_runtime_def number_json_def
      post_feedback_def decode_feedback_def createFeedback_def nullish_def fresh_id_def
      sample_student_def sample_store_def Let_def)

section \<open>Creating feedback\<close>

text \<open>
  A valid submission of a student is stored, with the identity of the session as the
  student name: the name is no argument of the operation.
\<close>

lemma createFeedback_valid:
  assumes "session_role s = Student" and "3 \<le> length msg" and "1 \<le> r" and "r \<le> 5"
  shows "\<exists>entry. createFeedback store (Some s) now msg r None
            = Inr (entry, store\<lparr>feedback_entries := feedback_entries store @ [entry]\<rparr>)
          \<and> student_name entry = identity s \<and> rating entry = r \<and> message entry = msg"
  using assms by (simp add: createFeedback_def Let_def)

lemma createFeedback_student_name:
  assumes "createFeedback store session now msg r foodItemId = Inr (entry, store')"
  shows "\<exists>s. session = Some s \<and> student_name entry = identity s"
  using assms
  by (auto simp: createFeedback_def Let_def split: option.splits if_splits)

text \<open>
  C5. For every rating outside the range 1 to 5, \<open>createFeedback\<close> returns an error, so
  that no entry is created and the store stays as it is; for a student, who alone may
  call the operation, the error is a \<open>ValidationError\<close>.
\<close>

theorem createFeedback_rating_out_of_range:
  assumes "r < 1 \<or> 5 < r"
  shows "(\<exists>e. createFeedback store session now msg r foodItemId = Inl e)
       \<and> (\<forall>s. session = Some s \<and> session_role s = Student \<longrightarrow>
            (\<exists>field. createFeedback store session now msg r foodItemId
                        = Inl (ValidationError field)))"
  using assms by (auto simp: createFeedback_def split: option.splits)

theorem createFeedback_rating_out_of_range_witness:
  "((0::int) < 1 \<or> 5 < (0::int))
   \<and> session_role sample_student = Student
   \<and> createFeedback sample_store (Some sample_student) ''2024-03-01T09:00:00Z'' ''Good'' 0 None
       = Inl (ValidationError ''rating'')
   \<and> createFeedback sample_store (Some sample_student) ''2024-03-01T09:00:00Z'' ''Good'' 6 None
       = Inl (ValidationError ''rating'')
   \<and> createFeedback sample_store (Some sample_student) ''2024-03-01T09:00:00Z'' ''Good'' (- 1)
        (Some 1) = Inl (ValidationError ''rating'')"
  using createFeedback_rating_out_of_range
          [where r = 0 and store = sample_store and session = "Some sample_student"
             and now = "''2024-03-01T09:00:00Z''" and msg = "''Good''" and foodItemId = None]
  by (simp add: createFeedback_def sample_student_def)

section \<open>Analytics\<close>

text \<open>
  C2. For every feedback set of three entries rated 5, 5 and 3 that all reference the
  food item \<open>Rice\<close>, \<open>computeAnalytics\<close> yields the single group \<open>Rice\<close> with the mean
  rating 13/3 and the count 3, and the distribution with a bucket for each rating value
  1 to 5: 0, 0, 1, 0 and 2 entries.
\<close>

theorem computeAnalytics_rice:
  assumes "map rating fs = [5, 5, 3]"
    and "\<forall>f \<in> set fs. food_item_name f = ''Rice'' \<and> food_item_id f \<noteq> None"
  shows "computeAnalytics fs =
     \<lparr> top_rated = [\<lparr> food_name = ''Rice'', avg_rating = 13 / 3, count' = 3 \<rparr>],
       rating_distribution = [(''1'', 0), (''2'', 0), (''3'', 1), (''4'', 0), (''5'', 2)] \<rparr>"
proof -
  obtain a b c where fs: "fs = [a, b, c]" and r: "rating a = 5" "rating b = 5" "rating c = 3"
    using assms(1) by (auto simp: map_eq_Cons_conv)
  have n: "food_item_name a = ''Rice''" "food_item_name b = ''Rice''" "food_item_name c = ''Rice''"
    and i: "food_item_id a \<noteq> None" "food_item_id b \<noteq> None" "food_item_id c \<noteq> None"
    using assms(2) fs by auto
  have ref: "referenced fs = [a, b, c]"
    using i by (simp add: referenced_def fs)
  have g: "group_of fs ''Rice'' = \<lparr> food_name = ''Rice'', avg_rating = 13 / 3, count' = 3 \<rparr>"
    by (simp add: group_of_def ref n r)
  have names: "remdups (map food_item_name (referenced fs)) = [''Rice'']"
    by (simp add: ref n)
  have top: "take 5 (Array_sort rank_compare
                   (map (group_of fs) (remdups (map food_item_name (referenced fs)))))
        = [\<lparr> food_name = ''Rice'', avg_rating = 13 / 3, count' = 3 \<rparr>]"
    by (simp add: names g Array_sort_def)
  have dist: "map (\<lambda>(key, r). (key, int (length (filter (\<lambda>f. rating f = r) fs)))) rating_keys
        = [(''1'', 0), (''2'', 0), (''3'', 1), (''4'', 0), (''5'', 2)]"
    by (simp add: rating_keys_def fs r)
  show ?thesis by (simp add: computeAnalytics_def top dist)
qed

theorem computeAnalytics_rice_witness:
  "map rating [rice_feedback 1 ''asha'' 5, rice_feedback 2 ''ravi'' 5, rice_feedback 3 ''mani'' 3]
     = [5, 5, 3]
   \<and> map food_item_name
        [rice_feedback 1 ''asha'' 5, rice_feedback 2 ''ravi'' 5, rice_feedback 3 ''mani'' 3]
     = [''Rice'', ''Rice'', ''Rice'']
   \<and> map food_item_id
        [rice_feedback 1 ''asha'' 5, rice_feedback 2 ''ravi'' 5, rice_feedback 3 ''mani'' 3]
     = [Some 1, Some 1, Some 1]
   \<and> computeAnalytics
        [rice_feedback 1 ''asha'' 5, rice_feedback 2 ''ravi'' 5, rice_feedback 3 ''mani'' 3]
     = \<lparr> top_rated = [\<lparr> food_name = ''Rice'', avg_rating = 13 / 3, count' = 3 \<rparr>],
         rating_distribution = [(''1'', 0), (''2'', 0), (''3'', 1), (''4'', 0), (''5'', 2)] \<rparr>"
proof -
  have h1: "map rating
      [rice_feedback 1 ''asha'' 5, rice_feedback 2 ''ravi'' 5, rice_feedback 3 ''mani'' 3]
     = [5, 5, 3]"
    by (simp add: rice_feedback_def)
  have h2: "\<forall>f \<in> set [rice_feedback 1 ''asha'' 5, rice_feedback 2 ''ravi'' 5,
                        rice_feedback 3 ''mani'' 3].
         food_item_name f = ''Rice'' \<and> food_item_id f \<noteq> None"
    by (simp add: rice_feedback_def)
  have h3: "map food_item_name
        [rice_feedback 1 ''asha'' 5, rice_feedback 2 ''ravi'' 5, rice_feedback 3 ''mani'' 3]
     = [''Rice'', ''Rice'', ''Rice'']"
    and h4: "map food_item_id
        [rice_feedback 1 ''asha'' 5, rice_feedback 2 ''ravi'' 5, rice_feedback 3 ''mani'' 3]
     = [Some 1, Some 1, Some 1]"
    by (simp_all add: rice_feedback_def)
  show ?thesis
    using h1 h3 h4 computeAnalytics_rice [OF h1 h2] by simp
qed

text \<open>
  The dashboard shows this distribution from five stars down to one; a bucket that the
  server had left out would be shown as 0 all the same.
\<close>

lemma distribution_rows_rice:
  "distribution_rows
     \<lparr> top_rated = [],
       rating_distribution = [(''1'', 0), (''2'', 0), (''3'', 1), (''4'', 0), (''5'', 2)] \<rparr>
   = [(''5'', 2, 200 / 3), (''4'', 0, 0), (''3'', 1, 100 / 3), (''2'', 0, 0), (''1'', 0, 0)]"
  by (simp add: distribution_rows_def)

lemma distribution_rows_missing_bucket:
  "distribution_rows \<lparr> top_rated = [], rating_distribution = [(''3'', 1), (''5'', 2)] \<rparr>
   = [(''5'', 2, 200 / 3), (''4'', 0, 0), (''3'', 1, 100 / 3), (''2'', 0, 0), (''1'', 0, 0)]"
  by (simp add: distribution_rows_def)

end
